theory Spec2Isabelle
  imports Main "HOL-Library.Char_ord" "HOL-Library.List_Lexorder"
begin

section \<open>Python string operations used by the two scripts\<close>

text \<open>
  Texts are modelled as \<^typ>\<open>string\<close> and the character classes are the ASCII ones:
  \<open>str.upper\<close> maps \<open>a..z\<close> to \<open>A..Z\<close>, \<open>str.strip\<close> removes the ASCII characters for
  which \<open>str.isspace\<close> holds. Characters outside ASCII are left alone by every operation
  below.
\<close>

definition lowercase :: string where
  "lowercase = ''abcdefghijklmnopqrstuvwxyz''"

definition uppercase :: string where
  "uppercase = ''ABCDEFGHIJKLMNOPQRSTUVWXYZ''"

definition digits :: string where
  "digits = ''0123456789''"

definition whitespace :: string where
  "whitespace = [CHR 0x09, CHR 0x0A, CHR 0x0B, CHR 0x0C, CHR 0x0D,
                 CHR 0x1C, CHR 0x1D, CHR 0x1E, CHR 0x1F, CHR '' '']"

definition is_space :: "char \<Rightarrow> bool" where
  "is_space c = (c \<in> set whitespace)"


definition upper_char :: "char \<Rightarrow> char" where
  "upper_char c = (case map_of (zip lowercase uppercase) c of None \<Rightarrow> c | Some u \<Rightarrow> u)"

text \<open>\<open>s.upper()\<close>\<close>

definition str_upper :: "string \<Rightarrow> string" where
  "str_upper s = map upper_char s"

text \<open>\<open>s.strip()\<close>: leading and trailing whitespace removed.\<close>

definition strip :: "string \<Rightarrow> string" where
  "strip s = rev (dropWhile is_space (rev (dropWhile is_space s)))"

text \<open>\<open>s.split(sep)\<close> for a one-character separator: never empty, \<open>''''.split(',') = ['''']\<close>.\<close>

fun split_on :: "char \<Rightarrow> string \<Rightarrow> string list" where
  "split_on sep [] = [[]]"
| "split_on sep (c # cs) =
     (if c = sep then [] # split_on sep cs
      else (case split_on sep cs of
              [] \<Rightarrow> [[c]]
            | p # ps \<Rightarrow> (c # p) # ps))"


text \<open>Truthiness of an optional string: \<open>None\<close> and \<open>''''\<close> are falsy.\<close>

definition truthy :: "string option \<Rightarrow> bool" where
  "truthy v = (case v of None \<Rightarrow> False | Some s \<Rightarrow> s \<noteq> [])"


section \<open>Exceptions\<close>

datatype error =
    JIRAError nat
  | HTTPError nat
  | ConnectionError
  | JSONDecodeError
  | AttributeError string
  | NameError string
  | KeyError string
  | TypeError string


section \<open>\<open>add_jira_component.py\<close>: the single-issue Component Ensurer\<close>

subsection \<open>The tracker client (the \<open>jira\<close> package) as a parameter\<close>

text \<open>
  The script talks to the tracker through the \<open>jira\<close> package only. The package and the
  service behind it are not part of the repository, so the client is a parameter: a record
  of the five operations the script calls, each a state transformer on an arbitrary world
  \<open>'w\<close> that either returns a value or raises.
\<close>

record component =
  comp_id :: string
  comp_name :: string

text \<open>
  What the script reads of a fetched issue: \<open>issue.fields.project.key\<close> and the names in
  \<open>issue.fields.components\<close>; the latter is \<open>None\<close> when the issue has no such field
  (reading it raises \<open>AttributeError\<close>).
\<close>

record jira_issue =
  project_key :: string
  components :: "string list option"

record 'w client =
  JIRA :: "'w \<Rightarrow> error option \<times> 'w"
  issue :: "string \<Rightarrow> 'w \<Rightarrow> (error + jira_issue) \<times> 'w"
  project_components :: "string \<Rightarrow> 'w \<Rightarrow> (error + component list) \<times> 'w"
  create_component :: "string \<Rightarrow> string \<Rightarrow> string \<Rightarrow> 'w \<Rightarrow> (error + component) \<times> 'w"
  update :: "string \<Rightarrow> string list \<Rightarrow> 'w \<Rightarrow> error option \<times> 'w"

text \<open>The client calls a run makes, in order (the call-count instrumentation).\<close>

datatype call =
    Connect
  | GetIssue string
  | ProjectComponents string
  | CreateComponent string string string
  | UpdateIssue string "string list"

fun is_create :: "call \<Rightarrow> bool" where
  "is_create (CreateComponent n p d) = True"
| "is_create _ = False"

fun is_update :: "call \<Rightarrow> bool" where
  "is_update (UpdateIssue k ns) = True"
| "is_update _ = False"

subsection \<open>Environment and outcome\<close>

text \<open>The six environment variables, under the names of the local variables holding them.\<close>

record env =
  jira_base_url :: "string option"
  jira_user_email :: "string option"
  jira_api_token :: "string option"
  issue_key :: "string option"
  component_name :: "string option"
  jira_project_filter :: "string option"

text \<open>
  The outcome of a run: the process exit code, the lines appended to the CI output file
  (\<open>GITHUB_OUTPUT\<close>, opened in append mode; the lines are kept without their newline and
  appending is taken to succeed),
  the client calls made, and the exception caught by the handler at the end of \<open>main\<close>, if
  any. The messages printed to the standard streams are not modelled.
\<close>

record result =
  exit_code :: nat
  output_file :: "string list"
  calls :: "call list"
  raised :: "error option"

definition failed :: "error \<Rightarrow> call list \<Rightarrow> result" where
  "failed e cs = \<lparr>exit_code = 1, output_file = [], calls = cs, raised = Some e\<rparr>"

definition skipped :: "string \<Rightarrow> call list \<Rightarrow> result" where
  "skipped reason cs =
     \<lparr>exit_code = 0, output_file = [''status=skipped'', ''skip_reason='' @ reason],
      calls = cs, raised = None\<rparr>"

definition processed :: "call list \<Rightarrow> result" where
  "processed cs = \<lparr>exit_code = 0, output_file = [''status=processed''], calls = cs, raised = None\<rparr>"

definition missing_variables :: result where
  "missing_variables = \<lparr>exit_code = 1, output_file = [], calls = [], raised = None\<rparr>"

subsection \<open>\<open>main\<close>\<close>

text \<open>Line 45: the comma-separated allow-list, trimmed, upper-cased, blanks dropped.\<close>

definition allowed_projects :: "string \<Rightarrow> string list" where
  "allowed_projects flt =
     map (\<lambda>p. str_upper (strip p)) (filter (\<lambda>p. strip p \<noteq> []) (split_on CHR '','' flt))"

text \<open>Line 107: the description of a created component.\<close>

definition description :: "string \<Rightarrow> string" where
  "description name = ''Component for '' @ name @ '' repository''"

text \<open>Lines 137--142: the full-replace update of the issue's component field.\<close>

definition update_issue ::
  "'w client \<Rightarrow> string \<Rightarrow> string list \<Rightarrow> string \<Rightarrow> call list \<Rightarrow> 'w \<Rightarrow> result \<times> 'w" where
  "update_issue c key existing_components name cs w =
     (let all_components = existing_components @ [name];
          cs' = cs @ [UpdateIssue key all_components]
      in case update c key all_components w of
           (Some e, w') \<Rightarrow> (failed e cs', w')
         | (None, w') \<Rightarrow> (processed cs', w'))"

text \<open>
  Lines 113--148: read the issue's components; when the name is missing, look the
  component object up (fetching the project's components again when the first listing
  did not have it) and update the issue.
\<close>

definition attach ::
  "'w client \<Rightarrow> string \<Rightarrow> string \<Rightarrow> string \<Rightarrow> component list \<Rightarrow> jira_issue \<Rightarrow>
   call list \<Rightarrow> 'w \<Rightarrow> result \<times> 'w" where
  "attach c key name pk comps iss cs w =
     (case components iss of
        None \<Rightarrow> (failed (AttributeError ''components'') cs, w)
      | Some existing_components \<Rightarrow>
          if name \<in> set existing_components then (processed cs, w)
          else
            (case find (\<lambda>comp. comp_name comp = name) comps of
               Some component_obj \<Rightarrow> update_issue c key existing_components name cs w
             | None \<Rightarrow>
                 (case project_components c pk w of
                    (Inl e, w') \<Rightarrow> (failed e (cs @ [ProjectComponents pk]), w')
                  | (Inr comps', w') \<Rightarrow>
                      update_issue c key existing_components name
                        (cs @ [ProjectComponents pk]) w')))"

text \<open>Lines 96--111: list the project's components and create the missing one.\<close>

definition ensure ::
  "'w client \<Rightarrow> string \<Rightarrow> string \<Rightarrow> string \<Rightarrow> jira_issue \<Rightarrow> call list \<Rightarrow> 'w \<Rightarrow> result \<times> 'w"
  where
  "ensure c key name pk iss cs w =
     (case project_components c pk w of
        (Inl e, w1) \<Rightarrow> (failed e (cs @ [ProjectComponents pk]), w1)
      | (Inr comps, w1) \<Rightarrow>
          if name \<notin> set (map comp_name comps) then
            (case create_component c name pk (description name) w1 of
               (Inl e, w2) \<Rightarrow>
                 (failed e (cs @ [ProjectComponents pk,
                                  CreateComponent name pk (description name)]), w2)
             | (Inr new_component, w2) \<Rightarrow>
                 attach c key name pk comps iss
                   (cs @ [ProjectComponents pk,
                          CreateComponent name pk (description name)]) w2)
          else attach c key name pk comps iss (cs @ [ProjectComponents pk]) w1)"

text \<open>
  Lines 66--152, the \<open>try\<close> block. \<open>sys.exit(0)\<close> on the skip path raises \<open>SystemExit\<close>,
  which the handler for \<open>Exception\<close> does not catch; every error of a client call reaches
  the handler and ends the run with exit code 1.
\<close>

definition run ::
  "'w client \<Rightarrow> string \<Rightarrow> string \<Rightarrow> string list \<Rightarrow> 'w \<Rightarrow> result \<times> 'w" where
  "run c key name allowed w =
     (case JIRA c w of
        (Some e, w1) \<Rightarrow> (failed e [Connect], w1)
      | (None, w1) \<Rightarrow>
          (case issue c key w1 of
             (Inl e, w2) \<Rightarrow> (failed e [Connect, GetIssue key], w2)
           | (Inr iss, w2) \<Rightarrow>
               if str_upper (project_key iss) \<notin> set allowed
               then (skipped ''project_not_allowed'' [Connect, GetIssue key], w2)
               else ensure c key name (project_key iss) iss [Connect, GetIssue key] w2))"

definition add_jira_component_main :: "'w client \<Rightarrow> env \<Rightarrow> 'w \<Rightarrow> result \<times> 'w" where
  "add_jira_component_main c e w =
     (if \<not> list_all truthy [jira_base_url e, jira_user_email e, jira_api_token e,
                            issue_key e, component_name e]
      then (missing_variables, w)
      else
        (case (issue_key e, component_name e, jira_project_filter e) of
           (Some key, Some name, Some flt) \<Rightarrow>
             if flt = [] \<or> strip flt = [] then (skipped ''missing_project_filter'' [], w)
             else if allowed_projects flt = [] then (skipped ''invalid_project_filter'' [], w)
             else run c key name (allowed_projects flt) w
         | (Some key, Some name, None) \<Rightarrow> (skipped ''missing_project_filter'' [], w)
         | _ \<Rightarrow> (missing_variables, w)))"

text \<open>
  A run that gets past the configuration checks of lines 22--42: the five required
  variables are set and the project filter is set and not blank.
\<close>

definition configured :: "env \<Rightarrow> string \<Rightarrow> string \<Rightarrow> string \<Rightarrow> bool" where
  "configured e key name flt =
     (list_all truthy [jira_base_url e, jira_user_email e, jira_api_token e,
                       issue_key e, component_name e] \<and>
      issue_key e = Some key \<and> component_name e = Some name \<and>
      jira_project_filter e = Some flt \<and> strip flt \<noteq> [])"

subsection \<open>A reference tracker\<close>

text \<open>
  Modelled from the spec: the issue tracker behind the client (section 6, Issue-Tracker
  Client), which is an external service and not code of the repository. It keeps the
  components of each project and the fields of each issue; creating a component whose name
  the project already has is answered with a conflict (409), and a full-replace update
  sets the issue's component list to the names sent, which must all exist in the issue's
  project. Component ids are opaque; a created component gets its project key and name
  as id.
\<close>

record tracker =
  projects :: "string \<rightharpoonup> component list"
  issues :: "string \<rightharpoonup> jira_issue"

definition tracker_issue :: "string \<Rightarrow> tracker \<Rightarrow> (error + jira_issue) \<times> tracker" where
  "tracker_issue key t =
     (case issues t key of None \<Rightarrow> (Inl (JIRAError 404), t) | Some iss \<Rightarrow> (Inr iss, t))"

definition tracker_project_components ::
  "string \<Rightarrow> tracker \<Rightarrow> (error + component list) \<times> tracker" where
  "tracker_project_components pk t =
     (case projects t pk of None \<Rightarrow> (Inl (JIRAError 404), t) | Some comps \<Rightarrow> (Inr comps, t))"

definition tracker_create_component ::
  "string \<Rightarrow> string \<Rightarrow> string \<Rightarrow> tracker \<Rightarrow> (error + component) \<times> tracker" where
  "tracker_create_component name pk descr t =
     (case projects t pk of
        None \<Rightarrow> (Inl (JIRAError 404), t)
      | Some comps \<Rightarrow>
          if name \<in> set (map comp_name comps) then (Inl (JIRAError 409), t)
          else (let new = \<lparr>comp_id = pk @ ''/'' @ name, comp_name = name\<rparr>
                in (Inr new, t\<lparr>projects := (projects t)(pk \<mapsto> comps @ [new])\<rparr>)))"

definition tracker_update ::
  "string \<Rightarrow> string list \<Rightarrow> tracker \<Rightarrow> error option \<times> tracker" where
  "tracker_update key names t =
     (case issues t key of
        None \<Rightarrow> (Some (JIRAError 404), t)
      | Some iss \<Rightarrow>
          (case projects t (project_key iss) of
             None \<Rightarrow> (Some (JIRAError 404), t)
           | Some comps \<Rightarrow>
               if set names \<subseteq> set (map comp_name comps)
               then (None, t\<lparr>issues := (issues t)(key \<mapsto> iss\<lparr>components := Some names\<rparr>)\<rparr>)
               else (Some (JIRAError 400), t)))"

definition mem_tracker :: "tracker client" where
  "mem_tracker =
     \<lparr>JIRA = (\<lambda>t. (None, t)),
      issue = tracker_issue,
      project_components = tracker_project_components,
      create_component = tracker_create_component,
      update = tracker_update\<rparr>"

text \<open>
  The creation race: between the listing and the create call another actor creates the
  component, so the create call is answered with the conflict and the component exists
  afterwards.
\<close>

definition racing_tracker :: "tracker client" where
  "racing_tracker =
     mem_tracker\<lparr>create_component :=
       (\<lambda>name pk descr t.
          (Inl (JIRAError 409), snd (tracker_create_component name pk descr t)))\<rparr>"

text \<open>Concrete inputs used below.\<close>

definition env0 :: env where
  "env0 = \<lparr>jira_base_url = Some ''https://jira.example'', jira_user_email = Some ''bot@example'',
            jira_api_token = Some ''token'', issue_key = Some ''CA-7'',
            component_name = Some ''webhooks'', jira_project_filter = Some ''ca, Dev ,''\<rparr>"

definition tracker0 :: tracker where
  "tracker0 =
     \<lparr>projects = [''CA'' \<mapsto> [\<lparr>comp_id = ''1'', comp_name = ''backend''\<rparr>], ''QA'' \<mapsto> []],
      issues = [''CA-7'' \<mapsto> \<lparr>project_key = ''CA'', components = Some [''backend'']\<rparr>,
                ''QA-1'' \<mapsto> \<lparr>project_key = ''QA'', components = Some []\<rparr>]\<rparr>"

definition env1 :: env where
  "env1 = env0\<lparr>issue_key := Some ''QA-1''\<rparr>"


subsection \<open>Auxiliary notions\<close>


text \<open>
  A tracker state in which the named component exists in the issue's project and is
  attached to the issue.
\<close>

definition settled :: "string \<Rightarrow> string \<Rightarrow> string \<Rightarrow> tracker \<Rightarrow> bool" where
  "settled key name pk t =
     (\<exists>iss comps ex. issues t key = Some iss \<and> project_key iss = pk \<and>
        components iss = Some ex \<and> name \<in> set ex \<and>
        projects t pk = Some comps \<and> name \<in> set (map comp_name comps))"

section \<open>\<open>jira_component_hook.py\<close>: the harvester and the batch Component Ensurer\<close>

subsection \<open>The issue-key regex and \<open>re.findall\<close>\<close>

text \<open>
  The fragment of Python's regular expressions that \<open>ISSUE_KEY_RE\<close> uses: the word
  boundary \<open>\b\<close>, one character of a class, and the greedy repetition \<open>+\<close> of a class. A
  regex is the sequence of its items. Classes are given by the string of their
  characters; on ASCII text \<open>\d\<close> is \<open>0-9\<close> and a word character is a letter, a digit or
  the underscore.
\<close>

datatype re_item = Bnd | Cls string | Plus string

definition is_word :: "char \<Rightarrow> bool" where
  "is_word c = (c \<in> set (lowercase @ uppercase @ digits @ ''_''))"

text \<open>
  \<open>\b\<close> holds between the previous character (\<open>None\<close> at the start of the text) and the
  rest of the text when exactly one side is a word character.
\<close>

definition at_boundary :: "char option \<Rightarrow> string \<Rightarrow> bool" where
  "at_boundary prev s =
     ((case prev of None \<Rightarrow> False | Some c \<Rightarrow> is_word c) \<noteq>
      (case s of [] \<Rightarrow> False | c # cs \<Rightarrow> is_word c))"

fun first_some :: "'a option list \<Rightarrow> 'a option" where
  "first_some [] = None"
| "first_some (None # xs) = first_some xs"
| "first_some (Some x # xs) = Some x"

text \<open>
  The backtracking matcher: the length of the match of the items at the head of the text,
  if there is one. A greedy \<open>+\<close> tries the longest run of the class first and gives back
  one character at a time while the rest of the regex fails.
\<close>

fun re_match :: "re_item list \<Rightarrow> char option \<Rightarrow> string \<Rightarrow> nat option" where
  "re_match [] prev s = Some 0"
| "re_match (Bnd # rs) prev s = (if at_boundary prev s then re_match rs prev s else None)"
| "re_match (Cls cl # rs) prev s =
     (case s of
        [] \<Rightarrow> None
      | c # cs \<Rightarrow> if c \<in> set cl then map_option Suc (re_match rs (Some c) cs) else None)"
| "re_match (Plus cl # rs) prev s =
     first_some
       (map (\<lambda>n. map_option ((+) n) (re_match rs (Some (s ! (n - 1))) (drop n s)))
            (rev [1..<Suc (length (takeWhile (\<lambda>c. c \<in> set cl) s))]))"

text \<open>
  \<open>re.findall\<close>: scan from the left; a match is recorded and the scan goes on behind it,
  otherwise the scan moves one character on. (The regex has one group, which spans the
  whole match, so the strings returned are the matches.)
\<close>

function findall_from :: "re_item list \<Rightarrow> char option \<Rightarrow> string \<Rightarrow> string list" where
  "findall_from re prev [] = (case re_match re prev [] of None \<Rightarrow> [] | Some n \<Rightarrow> [[]])"
| "findall_from re prev (c # cs) =
     (case re_match re prev (c # cs) of
        None \<Rightarrow> findall_from re (Some c) cs
      | Some 0 \<Rightarrow> [] # findall_from re (Some c) cs
      | Some (Suc n) \<Rightarrow>
          take (Suc n) (c # cs) # findall_from re (Some ((c # cs) ! n)) (drop n cs))"
  by pat_completeness auto
termination
  by (relation "measure (\<lambda>(re, prev, s). length s)") auto

definition findall :: "re_item list \<Rightarrow> string \<Rightarrow> string list" where
  "findall re s = findall_from re None s"

text \<open>Line 21: \<open>ISSUE_KEY_RE = re.compile(r"\b([A-Z][A-Z0-9]+-\d+)\b")\<close>\<close>

definition ISSUE_KEY_RE :: "re_item list" where
  "ISSUE_KEY_RE = [Bnd, Cls uppercase, Plus (uppercase @ digits), Cls ''-'', Plus digits, Bnd]"

text \<open>
  Lines 76--84 of \<open>extract_issue_keys\<close>: the collected texts (\<open>None\<close> for a field that is
  null in the event payload) are scanned, empty ones skipped, the keys gathered in a set
  and returned sorted.
\<close>

definition add_keys :: "string option \<Rightarrow> string set \<Rightarrow> string set" where
  "add_keys t keys =
     (case t of
        None \<Rightarrow> keys
      | Some s \<Rightarrow> if s = [] then keys else fold insert (findall ISSUE_KEY_RE s) keys)"

definition extract_issue_keys :: "string option list \<Rightarrow> string list" where
  "extract_issue_keys texts = sorted_list_of_set (fold add_keys texts {})"








subsection \<open>HTTP and JSON\<close>

text \<open>
  The batch script talks to the tracker with \<open>requests\<close> and decodes the JSON bodies
  itself. A decoded body is a \<open>json\<close> value (numbers are kept as integers). The transport
  is a parameter: it answers a request with a response or raises (a connection error), and
  may change the world. Authentication headers are not modelled.
\<close>

datatype json =
    JNull
  | JBool bool
  | JNum int
  | JStr string
  | JArr "json list"
  | JObj "(string \<times> json) list"

datatype http_method = GET | POST | PUT

record request =
  req_method :: http_method
  req_url :: string
  req_data :: "json option"

text \<open>\<open>json_body\<close> is \<open>None\<close> when the body is not JSON: \<open>r.json()\<close> raises.\<close>

record response =
  status_code :: nat
  json_body :: "json option"

type_synonym 'w transport = "request \<Rightarrow> 'w \<Rightarrow> (error + response) \<times> 'w"

text \<open>The state threaded through the script: the world and the requests sent so far.\<close>

type_synonym 'w state = "'w \<times> request list"

definition send :: "'w transport \<Rightarrow> request \<Rightarrow> 'w state \<Rightarrow> (error + response) \<times> 'w state" where
  "send http req st =
     (case http req (fst st) of (r, w') \<Rightarrow> (r, (w', snd st @ [req])))"

text \<open>\<open>r.raise_for_status()\<close> raises for the statuses 400 to 599.\<close>

definition raise_for_status :: "response \<Rightarrow> error option" where
  "raise_for_status r =
     (if 400 \<le> status_code r \<and> status_code r < 600 then Some (HTTPError (status_code r))
      else None)"

definition response_json :: "response \<Rightarrow> error + json" where
  "response_json r = (case json_body r of None \<Rightarrow> Inl JSONDecodeError | Some j \<Rightarrow> Inr j)"

text \<open>
  \<open>v[k]\<close> for a string \<open>k\<close>: defined on objects (the last binding of a repeated key is the
  one the decoder keeps), \<open>KeyError\<close> when the key is missing, \<open>TypeError\<close> on every
  other value.
\<close>

fun getitem :: "json \<Rightarrow> string \<Rightarrow> error + json" where
  "getitem (JObj kvs) k =
     (case map_of (rev kvs) k of None \<Rightarrow> Inl (KeyError k) | Some v \<Rightarrow> Inr v)"
| "getitem v k = Inl (TypeError ''subscript'')"

text \<open>
  \<open>for x in v\<close>: the elements of an array, the keys of an object, the characters of a
  string; \<open>TypeError\<close> on the other values.
\<close>

fun py_iter :: "json \<Rightarrow> error + json list" where
  "py_iter (JArr xs) = Inr xs"
| "py_iter (JObj kvs) = Inr (map JStr (rev (remdups (rev (map fst kvs)))))"
| "py_iter (JStr s) = Inr (map (\<lambda>c. JStr [c]) s)"
| "py_iter v = Inl (TypeError ''iterate'')"

fun hashable :: "json \<Rightarrow> bool" where
  "hashable (JArr xs) = False"
| "hashable (JObj kvs) = False"
| "hashable v = True"

fun json_truthy :: "json \<Rightarrow> bool" where
  "json_truthy JNull = False"
| "json_truthy (JBool b) = b"
| "json_truthy (JNum n) = (n \<noteq> 0)"
| "json_truthy (JStr s) = (s \<noteq> [])"
| "json_truthy (JArr xs) = (xs \<noteq> [])"
| "json_truthy (JObj kvs) = (kvs \<noteq> [])"

subsection \<open>Module globals\<close>

text \<open>
  The globals of lines 10--18 that the tracker functions read. \<open>str_other\<close> is Python's
  \<open>str()\<close> on a decoded value that is not a string (used when such a value is formatted
  into a URL or passed to \<open>str\<close>); on a string \<open>str\<close> is the identity.
\<close>

record config =
  JIRA_BASE_URL :: string
  REPO_NAME :: string
  str_other :: "json \<Rightarrow> string"

definition py_str :: "config \<Rightarrow> json \<Rightarrow> string" where
  "py_str cfg v = (case v of JStr s \<Rightarrow> s | _ \<Rightarrow> str_other cfg v)"

text \<open>
  \<open>JIRA_COMPONENT_LEAD\<close> is read at line 116 but bound nowhere in the module (no
  assignment, import or definition), so reading it raises \<open>NameError\<close>.
\<close>

definition JIRA_COMPONENT_LEAD :: "error + json" where
  "JIRA_COMPONENT_LEAD = Inl (NameError ''JIRA_COMPONENT_LEAD'')"

subsection \<open>The tracker functions\<close>

definition jira_get_issue_project ::
  "config \<Rightarrow> 'w transport \<Rightarrow> string \<Rightarrow> 'w state \<Rightarrow> (error + json \<times> json) \<times> 'w state" where
  "jira_get_issue_project cfg http key st =
     (case send http \<lparr>req_method = GET,
                      req_url = JIRA_BASE_URL cfg @ ''/rest/api/3/issue/'' @ key @ ''?fields=project'',
                      req_data = None\<rparr> st of
        (Inl e, st') \<Rightarrow> (Inl e, st')
      | (Inr r, st') \<Rightarrow>
          (case raise_for_status r of
             Some e \<Rightarrow> (Inl e, st')
           | None \<Rightarrow>
               (case response_json r of
                  Inl e \<Rightarrow> (Inl e, st')
                | Inr body \<Rightarrow>
                    (case getitem body ''fields'' of
                       Inl e \<Rightarrow> (Inl e, st')
                     | Inr flds \<Rightarrow>
                         (case getitem flds ''project'' of
                            Inl e \<Rightarrow> (Inl e, st')
                          | Inr project \<Rightarrow>
                              (case getitem project ''key'' of
                                 Inl e \<Rightarrow> (Inl e, st')
                               | Inr pkey \<Rightarrow>
                                   (case getitem project ''id'' of
                                      Inl e \<Rightarrow> (Inl e, st')
                                    | Inr pid \<Rightarrow> (Inr (pkey, pid), st'))))))))"

text \<open>
  Lines 107--110: the dictionary from component name to component. Only string keys can
  be looked up by the script, so the dictionary is a map on \<open>json\<close> keys.
\<close>

fun collect :: "json list \<Rightarrow> (json \<rightharpoonup> json) \<Rightarrow> error + (json \<rightharpoonup> json)" where
  "collect [] out = Inr out"
| "collect (cobj # rest) out =
     (case getitem cobj ''name'' of
        Inl e \<Rightarrow> Inl e
      | Inr n \<Rightarrow> if hashable n then collect rest (out(n \<mapsto> cobj))
                 else Inl (TypeError ''unhashable''))"

definition jira_list_components ::
  "config \<Rightarrow> 'w transport \<Rightarrow> json \<Rightarrow> 'w state \<Rightarrow> (error + (json \<rightharpoonup> json)) \<times> 'w state" where
  "jira_list_components cfg http pkey st =
     (case send http \<lparr>req_method = GET,
                      req_url = JIRA_BASE_URL cfg @ ''/rest/api/3/project/'' @ py_str cfg pkey
                                @ ''/components'',
                      req_data = None\<rparr> st of
        (Inl e, st') \<Rightarrow> (Inl e, st')
      | (Inr r, st') \<Rightarrow>
          (case raise_for_status r of
             Some e \<Rightarrow> (Inl e, st')
           | None \<Rightarrow>
               (case response_json r of
                  Inl e \<Rightarrow> (Inl e, st')
                | Inr body \<Rightarrow>
                    (case py_iter body of
                       Inl e \<Rightarrow> (Inl e, st')
                     | Inr comps \<Rightarrow> (collect comps Map.empty, st')))))"

text \<open>Lines 118--124, the part of \<open>jira_create_component\<close> behind the read of the lead.\<close>

definition post_component ::
  "config \<Rightarrow> 'w transport \<Rightarrow> json \<Rightarrow> string \<Rightarrow> json \<Rightarrow> 'w state \<Rightarrow> (error + json) \<times> 'w state"
  where
  "post_component cfg http pkey name body st =
     (case send http \<lparr>req_method = POST,
                      req_url = JIRA_BASE_URL cfg @ ''/rest/api/3/component'',
                      req_data = Some body\<rparr> st of
        (Inl e, st') \<Rightarrow> (Inl e, st')
      | (Inr r, st') \<Rightarrow>
          if status_code r = 409 then
            (case jira_list_components cfg http pkey st' of
               (Inl e, st'') \<Rightarrow> (Inl e, st'')
             | (Inr comps, st'') \<Rightarrow>
                 (Inr (case comps (JStr name) of None \<Rightarrow> JNull | Some cobj \<Rightarrow> cobj), st''))
          else
            (case raise_for_status r of
               Some e \<Rightarrow> (Inl e, st')
             | None \<Rightarrow> (response_json r, st')))"

definition jira_create_component ::
  "config \<Rightarrow> 'w transport \<Rightarrow> json \<Rightarrow> string \<Rightarrow> 'w state \<Rightarrow> (error + json) \<times> 'w state" where
  "jira_create_component cfg http pkey name st =
     (let body = [(''name'', JStr name), (''project'', pkey)]
      in case JIRA_COMPONENT_LEAD of
           Inl e \<Rightarrow> (Inl e, st)
         | Inr lead \<Rightarrow>
             post_component cfg http pkey name
               (JObj (if json_truthy lead then body @ [(''leadAccountId'', lead)] else body)) st)"

definition jira_add_component_to_issue ::
  "config \<Rightarrow> 'w transport \<Rightarrow> string \<Rightarrow> json \<Rightarrow> 'w state \<Rightarrow> error option \<times> 'w state" where
  "jira_add_component_to_issue cfg http key component_id st =
     (case send http
        \<lparr>req_method = PUT,
         req_url = JIRA_BASE_URL cfg @ ''/rest/api/3/issue/'' @ key,
         req_data = Some (JObj [(''update'',
                      JObj [(''components'',
                        JArr [JObj [(''add'',
                          JObj [(''id'', JStr (py_str cfg component_id))])]])])])\<rparr> st of
        (Inl e, st') \<Rightarrow> (Some e, st')
      | (Inr r, st') \<Rightarrow>
          if status_code r \<notin> {200, 204} then (raise_for_status r, st') else (None, st'))"

subsection \<open>\<open>main\<close>\<close>

text \<open>
  The lines printed: the notice that there is nothing to do, \<open>[OK]\<close> for a key, and
  \<open>[WARN]\<close> for a key with the exception caught (either handler prints the key and the
  exception).
\<close>

datatype log_line = NothingToDo | OK string | WARN string error


text \<open>Line 157: \<open>jira_add_component_to_issue(key, comp["id"])\<close>\<close>

definition add_to_issue ::
  "config \<Rightarrow> 'w transport \<Rightarrow> string \<Rightarrow> json \<Rightarrow> 'w state \<Rightarrow> (error + unit) \<times> 'w state" where
  "add_to_issue cfg http key cobj st =
     (case getitem cobj ''id'' of
        Inl e \<Rightarrow> (Inl e, st)
      | Inr cid \<Rightarrow>
          (case jira_add_component_to_issue cfg http key cid st of
             (Some e, st') \<Rightarrow> (Inl e, st')
           | (None, st') \<Rightarrow> (Inr (), st')))"

text \<open>Lines 150--157, the body of the \<open>try\<close>.\<close>

definition try_key ::
  "config \<Rightarrow> 'w transport \<Rightarrow> string \<Rightarrow> 'w state \<Rightarrow> (error + unit) \<times> 'w state" where
  "try_key cfg http key st =
     (case jira_get_issue_project cfg http key st of
        (Inl e, st1) \<Rightarrow> (Inl e, st1)
      | (Inr (pkey, pid), st1) \<Rightarrow>
          (case jira_list_components cfg http pkey st1 of
             (Inl e, st2) \<Rightarrow> (Inl e, st2)
           | (Inr comps, st2) \<Rightarrow>
               (case comps (JStr (REPO_NAME cfg)) of
                  Some cobj \<Rightarrow> add_to_issue cfg http key cobj st2
                | None \<Rightarrow>
                    (case jira_create_component cfg http pkey (REPO_NAME cfg) st2 of
                       (Inl e, st3) \<Rightarrow> (Inl e, st3)
                     | (Inr cobj, st3) \<Rightarrow> add_to_issue cfg http key cobj st3))))"

text \<open>Lines 149--163: the \<open>try\<close> with its two handlers, which catch every \<open>Exception\<close>.\<close>

definition process_key ::
  "config \<Rightarrow> 'w transport \<Rightarrow> string \<Rightarrow> 'w state \<Rightarrow> log_line \<times> 'w state" where
  "process_key cfg http key st =
     (case try_key cfg http key st of
        (Inl e, st') \<Rightarrow> (WARN key e, st')
      | (Inr u, st') \<Rightarrow> (OK key, st'))"

text \<open>Line 148: the loop over the keys.\<close>

fun process_keys ::
  "config \<Rightarrow> 'w transport \<Rightarrow> string list \<Rightarrow> 'w state \<Rightarrow> log_line list \<times> 'w state" where
  "process_keys cfg http [] st = ([], st)"
| "process_keys cfg http (key # keys) st =
     (case process_key cfg http key st of
        (l, st1) \<Rightarrow>
          (case process_keys cfg http keys st1 of
             (ls, st2) \<Rightarrow> (l # ls, st2)))"

record hook_result =
  hook_exit_code :: nat
  printed :: "log_line list"
  sent :: "request list"

definition jira_component_hook_main ::
  "config \<Rightarrow> 'w transport \<Rightarrow> string option list \<Rightarrow> 'w \<Rightarrow> hook_result \<times> 'w" where
  "jira_component_hook_main cfg http texts w =
     (let issue_keys = extract_issue_keys texts
      in if issue_keys = [] then
           (\<lparr>hook_exit_code = 0, printed = [NothingToDo], sent = []\<rparr>, w)
         else
           (case process_keys cfg http issue_keys (w, []) of
              (ls, (w', reqs)) \<Rightarrow> (\<lparr>hook_exit_code = 0, printed = ls, sent = reqs\<rparr>, w')))"

subsection \<open>The tracker's reading of an issue update\<close>

text \<open>
  Modelled from the spec: how the tracker, an external service, applies the body of
  \<open>PUT /issue/{key}\<close> to the components of the issue (section 6): the operations listed
  under \<open>update.components\<close> are applied in order, \<open>add\<close> attaching the component referred
  to, \<open>remove\<close> detaching it and \<open>set\<close> replacing the whole list, and a list under
  \<open>fields.components\<close> replaces the whole list. The attached components are the set of
  their references.
\<close>

datatype edit = Add json | Remove json | Replace "json list"

definition verb_edit :: "string \<times> json \<Rightarrow> edit list" where
  "verb_edit va =
     (if fst va = ''add'' then [Add (snd va)]
      else if fst va = ''remove'' then [Remove (snd va)]
      else if fst va = ''set'' then (case snd va of JArr rs \<Rightarrow> [Replace rs] | _ \<Rightarrow> [])
      else [])"

definition operation_edits :: "json \<Rightarrow> edit list" where
  "operation_edits operation =
     (case operation of JObj kvs \<Rightarrow> concat (map verb_edit kvs) | _ \<Rightarrow> [])"

definition component_edits :: "json \<Rightarrow> edit list" where
  "component_edits body =
     (case getitem body ''update'' of
        Inr upd \<Rightarrow>
          (case getitem upd ''components'' of
             Inr (JArr operations) \<Rightarrow> concat (map operation_edits operations)
           | _ \<Rightarrow> [])
      | Inl e \<Rightarrow> []) @
     (case getitem body ''fields'' of
        Inr flds \<Rightarrow>
          (case getitem flds ''components'' of
             Inr (JArr refs) \<Rightarrow> [Replace refs]
           | _ \<Rightarrow> [])
      | Inl e \<Rightarrow> [])"

fun apply_edit :: "edit \<Rightarrow> json set \<Rightarrow> json set" where
  "apply_edit (Add r) attached = insert r attached"
| "apply_edit (Remove r) attached = attached - {r}"
| "apply_edit (Replace rs) attached = set rs"

fun is_add :: "edit \<Rightarrow> bool" where
  "is_add (Add r) = True"
| "is_add e = False"

subsection \<open>A scripted tracker\<close>

text \<open>
  Concrete inputs used below: a transport that serves three issues of project \<open>ABC\<close>,
  which has the component named after the repository, answers 404 for the issue
  \<open>ABC-2\<close>, and serves the issue \<open>NEW-5\<close> of project \<open>NEW\<close>, which has no component.
\<close>

definition cfg0 :: config where
  "cfg0 = \<lparr>JIRA_BASE_URL = ''https://jira.example'', REPO_NAME = ''webhooks-test-repo'',
           str_other = (\<lambda>v. ''?'')\<rparr>"

definition project_body :: "string \<Rightarrow> string \<Rightarrow> json" where
  "project_body pkey pid =
     JObj [(''fields'', JObj [(''project'', JObj [(''key'', JStr pkey), (''id'', JStr pid)])])]"

definition fake_jira :: "unit transport" where
  "fake_jira req w =
     (if req_method req = GET \<and>
         req_url req \<in> {''https://jira.example/rest/api/3/issue/ABC-1?fields=project'',
                        ''https://jira.example/rest/api/3/issue/ABC-3?fields=project''}
      then Inr \<lparr>status_code = 200, json_body = Some (project_body ''ABC'' ''10000'')\<rparr>
      else if req_method req = GET \<and>
         req_url req = ''https://jira.example/rest/api/3/issue/NEW-5?fields=project''
      then Inr \<lparr>status_code = 200, json_body = Some (project_body ''NEW'' ''10001'')\<rparr>
      else if req_method req = GET \<and>
         req_url req = ''https://jira.example/rest/api/3/project/ABC/components''
      then Inr \<lparr>status_code = 200,
                json_body = Some (JArr [JObj [(''id'', JStr ''20000''),
                                              (''name'', JStr ''webhooks-test-repo'')]])\<rparr>
      else if req_method req = GET \<and>
         req_url req = ''https://jira.example/rest/api/3/project/NEW/components''
      then Inr \<lparr>status_code = 200, json_body = Some (JArr [])\<rparr>
      else if req_method req = POST \<and>
         req_url req = ''https://jira.example/rest/api/3/component''
      then Inr \<lparr>status_code = 201,
                json_body = Some (JObj [(''id'', JStr ''20001''),
                                        (''name'', JStr ''webhooks-test-repo'')])\<rparr>
      else if req_method req = PUT
      then Inr \<lparr>status_code = 204, json_body = None\<rparr>
      else Inr \<lparr>status_code = 404, json_body = None\<rparr>, w)"


section \<open>Properties\<close>

subsection \<open>Strings and the allow-list\<close>

















lemmas string_defs = strip_def str_upper_def upper_char_def is_space_def
  lowercase_def uppercase_def whitespace_def

lemmas tracker_defs = mem_tracker_def racing_tracker_def tracker_issue_def
  tracker_project_components_def tracker_create_component_def tracker_update_def

lemmas main_defs = add_jira_component_main_def run_def ensure_def attach_def update_issue_def

lemmas result_defs = failed_def skipped_def processed_def missing_variables_def

lemma allowed0: "allowed_projects ''ca, Dev ,'' = [''CA'', ''DEV'']"
  by (simp add: allowed_projects_def string_defs)

lemma strip_Nil: "strip [] = []" by (simp add: strip_def)

lemma main_configured:
  "configured e key name flt \<Longrightarrow>
   add_jira_component_main c e w =
     (if allowed_projects flt = [] then (skipped ''invalid_project_filter'' [], w)
      else run c key name (allowed_projects flt) w)"
  by (auto simp: configured_def add_jira_component_main_def strip_Nil)

lemma configured0: "configured env0 ''CA-7'' ''webhooks'' ''ca, Dev ,''"
  by (simp add: configured_def env0_def truthy_def string_defs)




subsection \<open>The single-issue ensurer\<close>


text \<open>
  Claim C2 (as amended). The script has no handling of a conflict on creation: when the
  create call raises, with the conflict status 409 or any other error, the handler at the
  end of \<open>main\<close> catches it and the run ends with exit code 1, right after the create
  call (no second listing, no update) and with nothing written to the output file.
\<close>

theorem create_error_is_fatal:
  assumes "configured e key name flt"
    and "JIRA c w = (None, w1)"
    and "issue c key w1 = (Inr iss, w2)"
    and "str_upper (project_key iss) \<in> set (allowed_projects flt)"
    and "project_components c (project_key iss) w2 = (Inr comps, w3)"
    and "name \<notin> set (map comp_name comps)"
    and "create_component c name (project_key iss) (description name) w3 = (Inl x, w4)"
  shows "add_jira_component_main c e w =
           (failed x [Connect, GetIssue key, ProjectComponents (project_key iss),
                      CreateComponent name (project_key iss) (description name)], w4) \<and>
         exit_code (fst (add_jira_component_main c e w)) = 1 \<and>
         raised (fst (add_jira_component_main c e w)) = Some x \<and>
         output_file (fst (add_jira_component_main c e w)) = []"
proof -
  from assms(4) have ne: "allowed_projects flt \<noteq> []" by auto
  have "add_jira_component_main c e w =
           (failed x [Connect, GetIssue key, ProjectComponents (project_key iss),
                      CreateComponent name (project_key iss) (description name)], w4)"
    using assms(2-7) ne by (simp add: main_configured [OF assms(1)] run_def ensure_def)
  then show ?thesis by (simp add: failed_def)
qed

theorem create_error_is_fatal_witness:
  "add_jira_component_main racing_tracker env0 tracker0 =
     (failed (JIRAError 409) [Connect, GetIssue ''CA-7'', ProjectComponents ''CA'',
        CreateComponent ''webhooks'' ''CA'' (description ''webhooks'')],
      snd (tracker_create_component ''webhooks'' ''CA'' (description ''webhooks'') tracker0))"
proof -
  let ?iss = "\<lparr>project_key = ''CA'', components = Some [''backend'']\<rparr>"
  have 1: "JIRA racing_tracker tracker0 = (None, tracker0)"
    by (simp add: tracker_defs)
  have 2: "issue racing_tracker ''CA-7'' tracker0 = (Inr ?iss, tracker0)"
    by (simp add: tracker_defs tracker0_def)
  have 3: "str_upper (project_key ?iss) \<in> set (allowed_projects ''ca, Dev ,'')"
    by (simp add: allowed0) (simp add: string_defs)
  have 4: "project_components racing_tracker (project_key ?iss) tracker0 =
             (Inr [\<lparr>comp_id = ''1'', comp_name = ''backend''\<rparr>], tracker0)"
    by (simp add: tracker_defs tracker0_def)
  have 5: "''webhooks'' \<notin> set (map comp_name [\<lparr>comp_id = ''1'', comp_name = ''backend''\<rparr>])"
    by simp
  have 6: "create_component racing_tracker ''webhooks'' (project_key ?iss)
             (description ''webhooks'') tracker0 =
           (Inl (JIRAError 409),
            snd (tracker_create_component ''webhooks'' ''CA'' (description ''webhooks'') tracker0))"
    by (simp add: tracker_defs)
  from create_error_is_fatal [OF configured0 1 2 3 4 5 6] show ?thesis by simp
qed

text \<open>
  The claim as stated fails in the creation race: the listing does not show the component,
  the create call is answered with 409, and the run exits with code 1.
\<close>

theorem conflict_on_create_counterexample:
  "exit_code (fst (add_jira_component_main racing_tracker env0 tracker0)) = 1 \<and>
   raised (fst (add_jira_component_main racing_tracker env0 tracker0)) = Some (JIRAError 409) \<and>
   output_file (fst (add_jira_component_main racing_tracker env0 tracker0)) = [] \<and>
   calls (fst (add_jira_component_main racing_tracker env0 tracker0)) =
     [Connect, GetIssue ''CA-7'', ProjectComponents ''CA'',
      CreateComponent ''webhooks'' ''CA'' ''Component for webhooks repository'']"
  by (simp add: main_configured [OF configured0] allowed0 run_def ensure_def tracker_defs
      tracker0_def string_defs description_def failed_def)

text \<open>
  Claim C4. When the upper-cased project key of the fetched issue is not in the non-empty
  parsed allow-list, the run makes the connect and the fetch call only (no create call and
  no update of the issue), leaves the world as the fetch left it, writes
  \<open>status=skipped\<close> and \<open>skip_reason=project_not_allowed\<close>, and exits with code 0.
\<close>

theorem project_not_allowed_skips:
  assumes "configured e key name flt"
    and "allowed_projects flt \<noteq> []"
    and "JIRA c w = (None, w1)"
    and "issue c key w1 = (Inr iss, w2)"
    and "str_upper (project_key iss) \<notin> set (allowed_projects flt)"
  shows "add_jira_component_main c e w =
           (skipped ''project_not_allowed'' [Connect, GetIssue key], w2) \<and>
         exit_code (fst (add_jira_component_main c e w)) = 0 \<and>
         output_file (fst (add_jira_component_main c e w)) =
           [''status=skipped'', ''skip_reason=project_not_allowed''] \<and>
         filter is_create (calls (fst (add_jira_component_main c e w))) = [] \<and>
         filter is_update (calls (fst (add_jira_component_main c e w))) = []"
proof -
  have "add_jira_component_main c e w =
           (skipped ''project_not_allowed'' [Connect, GetIssue key], w2)"
    using assms(2-5) by (simp add: main_configured [OF assms(1)] run_def)
  then show ?thesis by (simp add: skipped_def)
qed


lemma configured1: "configured env1 ''QA-1'' ''webhooks'' ''ca, Dev ,''"
  by (simp add: configured_def env1_def env0_def truthy_def string_defs)

theorem project_not_allowed_skips_witness:
  "add_jira_component_main mem_tracker env1 tracker0 =
     (skipped ''project_not_allowed'' [Connect, GetIssue ''QA-1''], tracker0)"
proof -
  let ?iss = "\<lparr>project_key = ''QA'', components = Some []\<rparr>"
  have 1: "allowed_projects ''ca, Dev ,'' \<noteq> []" by (simp add: allowed0)
  have 2: "JIRA mem_tracker tracker0 = (None, tracker0)"
    by (simp add: tracker_defs)
  have 3: "issue mem_tracker ''QA-1'' tracker0 = (Inr ?iss, tracker0)"
    by (simp add: tracker_defs tracker0_def)
  have 4: "str_upper (project_key ?iss) \<notin> set (allowed_projects ''ca, Dev ,'')"
    by (simp add: allowed0) (simp add: string_defs)
  from project_not_allowed_skips [OF configured1 1 2 3 4] show ?thesis by simp
qed

lemma update_issue_shape:
  "update_issue c key ex name cs w = (r, w') \<Longrightarrow>
   (\<exists>x cs'. r = failed x cs') \<or> (\<exists>cs'. r = processed cs')"
  by (auto simp: update_issue_def Let_def split: prod.splits option.splits)

lemma attach_shape:
  "attach c key name pk comps iss cs w = (r, w') \<Longrightarrow>
   (\<exists>x cs'. r = failed x cs') \<or> (\<exists>cs'. r = processed cs')"
  by (auto simp: attach_def split: prod.splits option.splits sum.splits if_splits
      dest: update_issue_shape)

lemma ensure_shape:
  "ensure c key name pk iss cs w = (r, w') \<Longrightarrow>
   (\<exists>x cs'. r = failed x cs') \<or> (\<exists>cs'. r = processed cs')"
  by (auto simp: ensure_def split: prod.splits sum.splits if_splits dest: attach_shape)






lemma update_issue_output:
  "update_issue c key ex name cs w = (r, w') \<Longrightarrow>
   output_file r = [] \<or> output_file r = [''status=processed'']"
  by (auto simp: update_issue_def Let_def result_defs split: prod.splits option.splits)




lemma run0:
  "fst (add_jira_component_main mem_tracker env0 tracker0) =
     processed [Connect, GetIssue ''CA-7'', ProjectComponents ''CA'',
        CreateComponent ''webhooks'' ''CA'' ''Component for webhooks repository'',
        ProjectComponents ''CA'', UpdateIssue ''CA-7'' [''backend'', ''webhooks'']]"
  by (simp add: main_configured [OF configured0] allowed0 run_def ensure_def attach_def
      update_issue_def tracker_defs tracker0_def string_defs description_def Let_def)


lemma processed_neq: "failed x cs \<noteq> processed cs'" "skipped s cs \<noteq> processed cs'"
  "output_file (failed x cs) \<noteq> [''status=processed'']"
  "output_file (skipped s cs) \<noteq> [''status=processed'']"
  "output_file missing_variables \<noteq> [''status=processed'']"
  by (auto simp: result_defs)

lemma mem_tracker_simps:
  "JIRA mem_tracker = (\<lambda>t. (None, t))"
  "issue mem_tracker = tracker_issue"
  "project_components mem_tracker = tracker_project_components"
  "create_component mem_tracker = tracker_create_component"
  "update mem_tracker = tracker_update"
  by (simp_all add: mem_tracker_def)

lemma update_issue_settles:
  assumes "update_issue mem_tracker key ex name cs t = (r, t1)"
    and "output_file r = [''status=processed'']"
    and "issues t key = Some iss" and "projects t (project_key iss) = Some comps"
  shows "settled key name (project_key iss) t1"
  using assms
  by (auto simp: update_issue_def Let_def mem_tracker_simps tracker_update_def settled_def
      processed_neq split: if_splits)

lemma attach_settles:
  assumes "attach mem_tracker key name (project_key iss) comps0 iss cs t = (r, t1)"
    and "output_file r = [''status=processed'']"
    and "issues t key = Some iss" and "projects t (project_key iss) = Some comps"
    and "name \<in> set (map comp_name comps)"
  shows "settled key name (project_key iss) t1"
proof (cases "components iss")
  case None
  with assms(1,2) show ?thesis by (auto simp: attach_def processed_neq)
next
  case (Some ex)
  show ?thesis
  proof (cases "name \<in> set ex")
    case True
    with Some assms show ?thesis by (auto simp: attach_def settled_def)
  next
    case False
    with Some assms(1,4) obtain cs' where
      "update_issue mem_tracker key ex name cs' t = (r, t1)"
      by (auto simp: attach_def mem_tracker_simps tracker_project_components_def
          split: option.splits)
    from update_issue_settles [OF this assms(2,3,4)] show ?thesis .
  qed
qed

lemma ensure_settles:
  assumes "ensure mem_tracker key name (project_key iss) iss cs t = (r, t1)"
    and "output_file r = [''status=processed'']"
    and "issues t key = Some iss"
  shows "settled key name (project_key iss) t1"
proof (cases "projects t (project_key iss)")
  case None
  with assms(1,2) show ?thesis
    by (auto simp: ensure_def mem_tracker_simps tracker_project_components_def processed_neq)
next
  case (Some comps)
  show ?thesis
  proof (cases "name \<in> set (map comp_name comps)")
    case True
    with Some assms(1) obtain cs' where
      "attach mem_tracker key name (project_key iss) comps iss cs' t = (r, t1)"
      by (auto simp: ensure_def mem_tracker_simps tracker_project_components_def)
    from attach_settles [OF this assms(2,3) Some True] show ?thesis .
  next
    case False
    define new where "new = \<lparr>comp_id = project_key iss @ ''/'' @ name, comp_name = name\<rparr>"
    define t' where "t' = t\<lparr>projects := (projects t)(project_key iss \<mapsto> comps @ [new])\<rparr>"
    from False Some assms(1) obtain cs' where
      at: "attach mem_tracker key name (project_key iss) comps iss cs' t' = (r, t1)"
      by (auto simp: ensure_def mem_tracker_simps tracker_project_components_def
          tracker_create_component_def Let_def new_def t'_def)
    have 1: "issues t' key = Some iss" by (simp add: t'_def assms(3))
    have 2: "projects t' (project_key iss) = Some (comps @ [new])" by (simp add: t'_def)
    have 3: "name \<in> set (map comp_name (comps @ [new]))" by (simp add: new_def)
    from attach_settles [OF at assms(2) 1 2 3] show ?thesis .
  qed
qed

lemma run_settles:
  assumes "run mem_tracker key name allowed t = (r, t1)"
    and "output_file r = [''status=processed'']"
  shows "\<exists>pk. settled key name pk t1 \<and> str_upper pk \<in> set allowed"
proof (cases "issues t key")
  case None
  with assms show ?thesis
    by (auto simp: run_def mem_tracker_simps tracker_issue_def processed_neq)
next
  case (Some iss)
  show ?thesis
  proof (cases "str_upper (project_key iss) \<in> set allowed")
    case False
    with Some assms show ?thesis
      by (auto simp: run_def mem_tracker_simps tracker_issue_def processed_neq)
  next
    case True
    with Some assms(1)
    have "ensure mem_tracker key name (project_key iss) iss [Connect, GetIssue key] t = (r, t1)"
      by (simp add: run_def mem_tracker_simps tracker_issue_def)
    from ensure_settles [OF this assms(2) Some] True show ?thesis by blast
  qed
qed

lemma settled_run:
  assumes "settled key name pk t" and "str_upper pk \<in> set allowed"
  shows "run mem_tracker key name allowed t =
           (processed [Connect, GetIssue key, ProjectComponents pk], t)"
  using assms
  by (auto simp: settled_def run_def ensure_def attach_def mem_tracker_simps tracker_issue_def
      tracker_project_components_def)

lemma ensure_exit_0:
  assumes "ensure c key name pk iss cs w = (r, w')" and "exit_code r = 0"
  shows "output_file r = [''status=processed'']"
  using ensure_shape [OF assms(1)] assms(2) by (auto simp: result_defs)

lemma run_skip_keeps_tracker:
  assumes "run mem_tracker key name al t = (r, t1)"
    and "exit_code r = 0" and "output_file r \<noteq> [''status=processed'']"
  shows "t1 = t \<and> calls r = [Connect, GetIssue key]"
proof (cases "issues t key")
  case None
  with assms(1,2) show ?thesis
    by (auto simp: run_def mem_tracker_simps tracker_issue_def failed_def)
next
  case (Some iss)
  show ?thesis
  proof (cases "str_upper (project_key iss) \<in> set al")
    case True
    with Some assms(1)
    have "ensure mem_tracker key name (project_key iss) iss [Connect, GetIssue key] t = (r, t1)"
      by (simp add: run_def mem_tracker_simps tracker_issue_def)
    from ensure_exit_0 [OF this assms(2)] assms(3) show ?thesis by simp
  next
    case False
    with Some assms(1) show ?thesis
      by (auto simp: run_def mem_tracker_simps tracker_issue_def skipped_def)
  qed
qed

lemma skip_keeps_tracker:
  assumes "add_jira_component_main mem_tracker e t = (r, t1)"
    and "exit_code r = 0" and "output_file r \<noteq> [''status=processed'']"
  shows "t1 = t \<and> filter is_create (calls r) = [] \<and> filter is_update (calls r) = []"
proof -
  have "(t1 = t \<and> calls r = []) \<or>
        (\<exists>key name al. run mem_tracker key name al t = (r, t1))"
    using assms(1)
    by (auto simp: add_jira_component_main_def result_defs split: if_splits option.splits)
  then show ?thesis
  proof
    assume "t1 = t \<and> calls r = []"
    then show ?thesis by simp
  next
    assume "\<exists>key name al. run mem_tracker key name al t = (r, t1)"
    then obtain key name al where "run mem_tracker key name al t = (r, t1)" by blast
    from run_skip_keeps_tracker [OF this assms(2,3)] show ?thesis by simp
  qed
qed

text \<open>
  Claim C5. Against the reference tracker, a second run after a successful run (exit code
  0: processed, or skipped) leaves the tracker unchanged (so the issue keeps the same
  attached components), makes no create call and no update call, exits with code 0 and
  writes the same status as a processed or skipped first run.
\<close>

theorem second_run_is_noop:
  assumes "add_jira_component_main mem_tracker e t = (r1, t1)"
    and "exit_code r1 = 0"
    and "add_jira_component_main mem_tracker e t1 = (r2, t2)"
  shows "t2 = t1 \<and> issues t2 = issues t1 \<and>
         filter is_create (calls r2) = [] \<and> filter is_update (calls r2) = [] \<and>
         exit_code r2 = 0 \<and> output_file r2 = output_file r1"
proof (cases "output_file r1 = [''status=processed'']")
  case True
  from assms(1) True obtain key name flt where cfg: "configured e key name flt"
    by (auto simp: add_jira_component_main_def configured_def processed_neq strip_Nil
        split: if_splits option.splits)
  from assms(1) True have ne: "allowed_projects flt \<noteq> []"
    by (auto simp: main_configured [OF cfg] processed_neq split: if_splits)
  with assms(1) have "run mem_tracker key name (allowed_projects flt) t = (r1, t1)"
    by (simp add: main_configured [OF cfg])
  from run_settles [OF this True] obtain pk where
    pk: "settled key name pk t1" "str_upper pk \<in> set (allowed_projects flt)" by blast
  from settled_run [OF pk] assms(3) ne
  have "r2 = processed [Connect, GetIssue key, ProjectComponents pk]" "t2 = t1"
    by (simp_all add: main_configured [OF cfg])
  then show ?thesis using True by (simp add: processed_def)
next
  case False
  from skip_keeps_tracker [OF assms(1,2) False] have t: "t1 = t"
    and c: "filter is_create (calls r1) = []" "filter is_update (calls r1) = []" by simp_all
  from assms(1,3) t have "r2 = r1" "t2 = t1" by simp_all
  with c assms(2) show ?thesis by simp
qed

theorem second_run_is_noop_witness:
  "exit_code (fst (add_jira_component_main mem_tracker env0 tracker0)) = 0 \<and>
   output_file (fst (add_jira_component_main mem_tracker env0 tracker0)) = [''status=processed''] \<and>
   snd (add_jira_component_main mem_tracker env0
          (snd (add_jira_component_main mem_tracker env0 tracker0))) =
     snd (add_jira_component_main mem_tracker env0 tracker0) \<and>
   filter is_create (calls (fst (add_jira_component_main mem_tracker env0
          (snd (add_jira_component_main mem_tracker env0 tracker0))))) = [] \<and>
   filter is_update (calls (fst (add_jira_component_main mem_tracker env0
          (snd (add_jira_component_main mem_tracker env0 tracker0))))) = [] \<and>
   output_file (fst (add_jira_component_main mem_tracker env0
          (snd (add_jira_component_main mem_tracker env0 tracker0)))) = [''status=processed'']"
proof -
  have 1: "exit_code (fst (add_jira_component_main mem_tracker env0 tracker0)) = 0"
    by (simp add: run0 processed_def)
  have 2: "output_file (fst (add_jira_component_main mem_tracker env0 tracker0)) =
             [''status=processed'']"
    by (simp add: run0 processed_def)
  from second_run_is_noop [OF prod.collapse [symmetric] 1 prod.collapse [symmetric]] 1 2
  show ?thesis by simp
qed

subsection \<open>The issue-key harvester\<close>



















































subsection \<open>The batch ensurer\<close>




text \<open>
  Claim C1 (the code fails it). \<open>jira_create_component\<close> raises \<open>NameError\<close> at its read
  of \<open>JIRA_COMPONENT_LEAD\<close>, before any request is sent, whatever the transport would
  answer. So for the issue \<open>NEW-5\<close>, whose project has no component of the repository's
  name, the run sends the two reads only (no create request, no attach request) and prints
  a warning for the key.
\<close>

theorem create_if_absent_raises:
  "jira_create_component cfg http pkey name st = (Inl (NameError ''JIRA_COMPONENT_LEAD''), st) \<and>
   fst (jira_component_hook_main cfg0 fake_jira [Some ''NEW-5 start''] ()) =
     \<lparr>hook_exit_code = 0,
      printed = [WARN ''NEW-5'' (NameError ''JIRA_COMPONENT_LEAD'')],
      sent = [\<lparr>req_method = GET,
               req_url = ''https://jira.example/rest/api/3/issue/NEW-5?fields=project'',
               req_data = None\<rparr>,
              \<lparr>req_method = GET,
               req_url = ''https://jira.example/rest/api/3/project/NEW/components'',
               req_data = None\<rparr>]\<rparr>"
proof
  show "jira_create_component cfg http pkey name st =
          (Inl (NameError ''JIRA_COMPONENT_LEAD''), st)"
    by (simp add: jira_create_component_def JIRA_COMPONENT_LEAD_def)
  show "fst (jira_component_hook_main cfg0 fake_jira [Some ''NEW-5 start''] ()) =
     \<lparr>hook_exit_code = 0,
      printed = [WARN ''NEW-5'' (NameError ''JIRA_COMPONENT_LEAD'')],
      sent = [\<lparr>req_method = GET,
               req_url = ''https://jira.example/rest/api/3/issue/NEW-5?fields=project'',
               req_data = None\<rparr>,
              \<lparr>req_method = GET,
               req_url = ''https://jira.example/rest/api/3/project/NEW/components'',
               req_data = None\<rparr>]\<rparr>"
    by code_simp
qed



text \<open>
  Claim C9. Whatever the transport answers, \<open>jira_add_component_to_issue\<close> sends exactly
  one request: a \<open>PUT\<close> to the issue whose body, as the tracker reads it, consists of the
  single operation that adds the component with the given id. The body holds no other
  edit of the component field, so applying it keeps every component the issue had.
\<close>

theorem additive_attach:
  "\<exists>r body.
     snd (snd (jira_add_component_to_issue cfg http key cid (w, reqs))) = reqs @ [r] \<and>
     req_method r = PUT \<and>
     req_url r = JIRA_BASE_URL cfg @ ''/rest/api/3/issue/'' @ key \<and>
     req_data r = Some body \<and>
     component_edits body = [Add (JObj [(''id'', JStr (py_str cfg cid))])] \<and>
     list_all is_add (component_edits body) \<and>
     (\<forall>attached. attached \<subseteq> fold apply_edit (component_edits body) attached) \<and>
     (\<forall>attached. fold apply_edit (component_edits body) attached =
                   insert (JObj [(''id'', JStr (py_str cfg cid))]) attached)"
proof -
  let ?body = "JObj [(''update'', JObj [(''components'',
                 JArr [JObj [(''add'', JObj [(''id'', JStr (py_str cfg cid))])]])])]"
  let ?r = "\<lparr>req_method = PUT, req_url = JIRA_BASE_URL cfg @ ''/rest/api/3/issue/'' @ key,
             req_data = Some ?body\<rparr>"
  have s: "snd (snd (jira_add_component_to_issue cfg http key cid (w, reqs))) = reqs @ [?r]"
    by (simp add: jira_add_component_to_issue_def send_def split: prod.splits sum.splits)
  have e: "component_edits ?body = [Add (JObj [(''id'', JStr (py_str cfg cid))])]"
    by (simp add: component_edits_def operation_edits_def verb_edit_def)
  show ?thesis
    apply (rule exI [of _ ?r])
    apply (rule exI [of _ ?body])
    apply (simp only: s e)
    apply auto
    done
qed

end
